theory Spec2Isabelle
  imports Complex_Main "HOL-Library.FSet" "HOL-Library.AList"
begin

section \<open>Strings of the command surface\<close>

text \<open>
  Command texts are Python \<open>str\<close> values. They are modelled as \<open>string\<close> restricted to
  ASCII: whitespace, digits and case folding are those of the ASCII range, which is what
  \<open>str.split()\<close>, \<open>str.lower()\<close>, \<open>str.isdigit()\<close>, \<open>int()\<close> and the regex class
  \<open>\d\<close> do on ASCII text.
\<close>

definition ascii_uppercase :: string where
  "ascii_uppercase = ''ABCDEFGHIJKLMNOPQRSTUVWXYZ''"

definition ascii_lowercase :: string where
  "ascii_lowercase = ''abcdefghijklmnopqrstuvwxyz''"

definition digits :: string where
  "digits = ''0123456789''"

definition is_space :: "char \<Rightarrow> bool" where
  "is_space c \<longleftrightarrow> c \<in> {CHR 0x09, CHR 0x0A, CHR 0x0B, CHR 0x0C, CHR 0x0D,
                          CHR 0x1C, CHR 0x1D, CHR 0x1E, CHR 0x1F, CHR 0x20}"

definition is_digit :: "char \<Rightarrow> bool" where
  "is_digit c \<longleftrightarrow> c \<in> set digits"

definition lower_char :: "char \<Rightarrow> char" where
  "lower_char c = (case map_of (zip ascii_uppercase ascii_lowercase) c of
                     Some d \<Rightarrow> d | None \<Rightarrow> c)"

definition py_lower :: "string \<Rightarrow> string" where
  "py_lower s = map lower_char s"

text \<open>\<open>s.startswith(p)\<close>.\<close>

definition startswith :: "string \<Rightarrow> string \<Rightarrow> bool" where
  "startswith s p \<longleftrightarrow> take (length p) s = p"

text \<open>
  \<open>s.split()\<close>: the maximal runs of non-whitespace characters. \<open>cur\<close> is the word being
  read.
\<close>

fun split_acc :: "string \<Rightarrow> string \<Rightarrow> string list" where
  "split_acc cur [] = (if cur = [] then [] else [cur])"
| "split_acc cur (c # cs) =
     (if is_space c then (if cur = [] then split_acc [] cs else cur # split_acc [] cs)
      else split_acc (cur @ [c]) cs)"

definition py_split :: "string \<Rightarrow> string list" where
  "py_split s = split_acc [] s"

text \<open>
  \<open>s.split(maxsplit=n)\<close>: at most \<open>n\<close> splits; the last element is the remainder, leading
  whitespace removed, trailing whitespace kept.
\<close>

fun split_max_acc :: "nat \<Rightarrow> string \<Rightarrow> string \<Rightarrow> string list" where
  "split_max_acc n cur [] = (if cur = [] then [] else [cur])"
| "split_max_acc n cur (c # cs) =
     (if cur = [] \<and> is_space c then split_max_acc n [] cs
      else if n = 0 then [c # cs]
      else if is_space c then cur # split_max_acc (n - 1) [] cs
      else split_max_acc n (cur @ [c]) cs)"

definition py_split_max :: "nat \<Rightarrow> string \<Rightarrow> string list" where
  "py_split_max n s = split_max_acc n [] s"

text \<open>The value of a run of decimal digits, most significant first.\<close>

definition digit_val :: "char \<Rightarrow> nat" where
  "digit_val c = (case map_of (zip digits [0, 1, 2, 3, 4, 5, 6, 7, 8, 9]) c of
                    Some d \<Rightarrow> d | None \<Rightarrow> 0)"

definition digits_val :: "string \<Rightarrow> nat" where
  "digits_val s = foldl (\<lambda>acc c. 10 * acc + digit_val c) 0 s"

text \<open>
  \<open>int(s)\<close> on a token without whitespace: an optional sign, then decimal digits, single
  underscores allowed between digits. \<open>None\<close> is \<open>ValueError\<close>.
\<close>

fun digit_groups :: "bool \<Rightarrow> string \<Rightarrow> string option" where
  "digit_groups after_digit [] = (if after_digit then Some [] else None)"
| "digit_groups after_digit (c # cs) =
     (if is_digit c then map_option ((#) c) (digit_groups True cs)
      else if c = CHR ''_'' \<and> after_digit \<and> cs \<noteq> [] \<and> is_digit (hd cs)
        then digit_groups False cs
      else None)"

definition py_int :: "string \<Rightarrow> int option" where
  "py_int s =
     (case s of
        [] \<Rightarrow> None
      | c # cs \<Rightarrow>
          if c = CHR ''-'' then map_option (\<lambda>d. - int (digits_val d)) (digit_groups False cs)
          else if c = CHR ''+'' then map_option (\<lambda>d. int (digits_val d)) (digit_groups False cs)
          else map_option (\<lambda>d. int (digits_val d)) (digit_groups False s))"

text \<open>\<open>s.isdigit()\<close>: non-empty and all digits.\<close>

definition isdigit :: "string \<Rightarrow> bool" where
  "isdigit s \<longleftrightarrow> s \<noteq> [] \<and> list_all is_digit s"

section \<open>The forwarder's state\<close>

text \<open>
  A Python dict is the list of its items in insertion order, with unique keys:
  \<open>map_of d k\<close> is the lookup, \<open>AList.update k v d\<close> the assignment \<open>d[k] = v\<close>
  (in place for a present key, at the end for a new one) and \<open>AList.delete k d\<close> the
  statement \<open>del d[k]\<close>.

  \<open>MessageForwarder\<close> keeps everything in instance attributes. Python sets and asyncio
  tasks are objects that several attributes and coroutines may refer to, so both live in
  explicit stores: \<open>set_objs\<close> holds the set objects (each as the list of its elements,
  without duplicates), \<open>tasks\<close> the tasks created on the event loop; an attribute holds
  an index into its store.
\<close>

type_synonym message = nat
type_synonym addr = nat
type_synonym handle = nat

text \<open>
  An asyncio task is \<open>Running\<close> (pending, possibly asleep), \<open>CancelRequested\<close> after
  \<open>task.cancel()\<close> until the loop delivers \<open>CancelledError\<close>, or \<open>Done\<close>;
  \<open>task.done()\<close> is true only of the last.
\<close>

datatype task_status = Running | CancelRequested | Done

text \<open>
  The two coroutines run as tasks: \<open>forward_stored_message(msg_id, targets, interval)\<close>
  and \<open>_schedule_forward(msg_id, targets, schedule_time)\<close>. \<open>fs_bound\<close> holds the
  locals \<open>message\<close>, \<open>use_targets\<close>, \<open>use_interval\<close> once the prologue has run.
\<close>

datatype coroutine =
    ForwardStored (fs_msg_id: string) (fs_targets: "addr option") (fs_interval: "int option")
                  (fs_bound: "(message \<times> addr \<times> int) option")
  | ScheduleForward (sf_msg_id: string) (sf_targets: addr) (sf_time: int)

record task =
  coro :: coroutine
  status :: task_status

record campaign =
  c_msg_id :: string
  c_targets :: addr
  c_interval :: int
  c_start_time :: int

record forwarder =
  forwarding_enabled :: bool
  target_chats :: addr
  forward_interval :: int
  stored_messages :: "(string \<times> message) list"
  forwarding_tasks :: "(string \<times> handle) list"
  scheduled_tasks :: "(string \<times> handle) list"
  targeted_campaigns :: "(string \<times> campaign) list"
  admins :: "int fset"
  analytics_forwards :: "(string \<times> (string \<times> int) list) list"
  analytics_failures :: "(string \<times> (string \<times> string list) list) list"
  set_objs :: "int list list"
  tasks :: "task list"

text \<open>
  \<open>__init__\<close>: disabled, no targets, interval 300, nothing stored, the admins of
  \<open>config.ADMIN_IDS\<close>.
\<close>

definition init :: "int list \<Rightarrow> forwarder" where
  "init admin_ids =
     \<lparr> forwarding_enabled = False, target_chats = 0, forward_interval = 300,
       stored_messages = [], forwarding_tasks = [], scheduled_tasks = [],
       targeted_campaigns = [], admins = fset_of_list admin_ids, analytics_forwards = [],
       analytics_failures = [], set_objs = [[]], tasks = [] \<rparr>"

text \<open>An incoming command: its text, its sender when one can be read off the event, and
  the message it replies to.\<close>

record event =
  ev_text :: string
  ev_sender :: "int option"
  ev_reply_to :: "message option"

text \<open>
  What the analytics report shows. The source computes the two percentages in floating
  point and prints them with one decimal; the model keeps the exact quotient the float
  approximates. \<open>r_change\<close> is \<open>None\<close> when the report has no "Today vs. Yesterday"
  part.
\<close>

record report =
  r_days :: int
  r_total_forwards :: int
  r_total_failures :: int
  r_success_rate :: rat
  r_daily :: "(string \<times> int \<times> int) list"
  r_change :: "rat option"

text \<open>The replies a handler sends; the source words each of them as a text.\<close>

datatype reply =
    Offline
  | Welcome
  | Error_reply
  | Usage
  | Saved string
  | Reply_to_message_first
  | Message_not_found string
  | No_message_set
  | Removed string
  | Interval_too_small
  | Invalid_interval
  | No_targets
  | Campaign_started string int
  | Could_not_resolve string
  | No_valid_targets
  | Targeted_started string string nat int
  | Invalid_time_format string
  | Could_not_parse_time string
  | Must_be_in_future
  | Scheduled string string int
  | Cannot_remove_original_admin
  | Not_an_admin int
  | Admin_removed int
  | Already_admin int
  | Admin_added int
  | Days_out_of_range
  | Invalid_days
  | Analytics_report report

text \<open>
  A handler takes the state and the event and returns the new state and the replies it
  sent. \<open>None\<close> is a handler that does not return.
\<close>

type_synonym handler = "forwarder \<Rightarrow> event \<Rightarrow> (forwarder \<times> reply list) option"

section \<open>The authorization decorator\<close>

datatype py_error = IndexError | KeyError | ValueError | OverflowError | ZeroDivisionError

text \<open>\<open>event.text.split()[0].lower() if event.text else ""\<close>.\<close>

definition command_name :: "string \<Rightarrow> py_error + string" where
  "command_name text =
     (if text = [] then Inr []
      else case py_split text of [] \<Rightarrow> Inl IndexError | w # _ \<Rightarrow> Inr (py_lower w))"

text \<open>
  \<open>admin_only(func)\<close>, the wrapper around every handler. \<open>fname\<close> is
  \<open>func.__name__\<close>. Every exception inside the wrapper is caught and ends the call
  with no reply.
\<close>

definition admin_only :: "string \<Rightarrow> handler \<Rightarrow> handler" where
  "admin_only fname func s ev =
     (case command_name (ev_text ev) of
        Inl e \<Rightarrow> Some (s, [])
      | Inr cname \<Rightarrow>
          (let is_start_command = (fname = ''cmd_start'' \<or> cname = ''/start'') in
           (case ev_sender ev of
              None \<Rightarrow> Some (s, [])
            | Some sender \<Rightarrow>
                if sender |\<notin>| admins s then Some (s, [])
                else if is_start_command \<and> \<not> forwarding_enabled s then func s ev
                else if \<not> forwarding_enabled s then
                  (if \<not> startswith cname ''/silent'' then Some (s, [Offline])
                   else Some (s, []))
                else func s ev)))"

text \<open>The wrapper's \<open>is_start_command\<close>, as a predicate of the call.\<close>

definition is_start_command :: "string \<Rightarrow> event \<Rightarrow> bool" where
  "is_start_command fname ev \<longleftrightarrow>
     fname = ''cmd_start'' \<or> command_name (ev_text ev) = Inr ''/start''"

text \<open>
  \<open>cmd_start\<close>: enables the forwarder and greets. \<open>get_me\<close> tells whether the
  client's \<open>get_me()\<close> call returns; when it raises, the handler replies with the error
  before the flag is set.
\<close>

definition cmd_start :: "bool \<Rightarrow> handler" where
  "cmd_start get_me s ev =
     (if get_me then Some (s\<lparr>forwarding_enabled := True\<rparr>, [Welcome])
      else Some (s, [Error_reply]))"

subsection \<open>The gate as the specification words it\<close>

datatype lifecycle = Disabled | Enabled

datatype decision = Allow | Deny | AllowBypass

definition lifecycle_of :: "forwarder \<Rightarrow> lifecycle" where
  "lifecycle_of s = (if forwarding_enabled s then Enabled else Disabled)"

text \<open>
  The four rules in their order. The second component says whether an offline notice is
  to be surfaced.
\<close>

definition authorize :: "int fset \<Rightarrow> int \<Rightarrow> bool \<Rightarrow> bool \<Rightarrow> lifecycle \<Rightarrow> decision \<times> bool" where
  "authorize admin_set sender is_enable silent st =
     (if sender |\<notin>| admin_set then (Deny, False)
      else if is_enable \<and> st = Disabled then (AllowBypass, False)
      else if st = Disabled then (Deny, \<not> silent)
      else (Allow, False))"

section \<open>Set objects and tasks\<close>

definition lookup :: "'a list \<Rightarrow> nat \<Rightarrow> 'a option" where
  "lookup xs i = (if i < length xs then Some (xs ! i) else None)"

text \<open>The elements of the set object at an address, in iteration order.\<close>

definition set_at :: "forwarder \<Rightarrow> addr \<Rightarrow> int list" where
  "set_at s a = (case lookup (set_objs s) a of Some xs \<Rightarrow> xs | None \<Rightarrow> [])"

text \<open>\<open>set()\<close> followed by the given \<open>add\<close> calls: a new object.\<close>

definition new_set :: "int list \<Rightarrow> forwarder \<Rightarrow> addr \<times> forwarder" where
  "new_set xs s = (length (set_objs s), s\<lparr>set_objs := set_objs s @ [remdups xs]\<rparr>)"

text \<open>\<open>obj.add(x)\<close> and \<open>obj.remove(x)\<close> (on a present element), in place.\<close>

definition set_add :: "addr \<Rightarrow> int \<Rightarrow> forwarder \<Rightarrow> forwarder" where
  "set_add a x s =
     s\<lparr>set_objs := (set_objs s)[a := (if x \<in> set (set_at s a) then set_at s a
                                       else set_at s a @ [x])]\<rparr>"

definition set_remove :: "addr \<Rightarrow> int \<Rightarrow> forwarder \<Rightarrow> forwarder" where
  "set_remove a x s = s\<lparr>set_objs := (set_objs s)[a := removeAll x (set_at s a)]\<rparr>"

text \<open>
  The statements of the target commands that change the destination set:
  \<open>self.target_chats.add(chat_id)\<close>, \<open>self.target_chats.remove(chat_id)\<close> (guarded by
  membership) and, in \<open>cmd_restore\<close>, \<open>self.target_chats = set(...)\<close>.
\<close>

definition target_chats_add :: "int \<Rightarrow> forwarder \<Rightarrow> forwarder" where
  "target_chats_add chat_id s = set_add (target_chats s) chat_id s"

definition target_chats_remove :: "int \<Rightarrow> forwarder \<Rightarrow> forwarder" where
  "target_chats_remove chat_id s =
     (if chat_id \<in> set (set_at s (target_chats s)) then set_remove (target_chats s) chat_id s
      else s)"

definition target_chats_assign :: "int list \<Rightarrow> forwarder \<Rightarrow> forwarder" where
  "target_chats_assign xs s = (case new_set xs s of (a, s') \<Rightarrow> s'\<lparr>target_chats := a\<rparr>)"

text \<open>\<open>asyncio.create_task(coro)\<close>, \<open>task.done()\<close>, \<open>task.cancel()\<close>.\<close>

definition create_task :: "coroutine \<Rightarrow> forwarder \<Rightarrow> handle \<times> forwarder" where
  "create_task c s = (length (tasks s), s\<lparr>tasks := tasks s @ [\<lparr>coro = c, status = Running\<rparr>]\<rparr>)"

definition task_done :: "forwarder \<Rightarrow> handle \<Rightarrow> bool" where
  "task_done s h = (case lookup (tasks s) h of Some t \<Rightarrow> status t = Done | None \<Rightarrow> True)"

definition cancel :: "handle \<Rightarrow> forwarder \<Rightarrow> forwarder" where
  "cancel h s =
     (case lookup (tasks s) h of
        Some t \<Rightarrow> if status t = Done then s
                  else s\<lparr>tasks := (tasks s)[h := t\<lparr>status := CancelRequested\<rparr>]\<rparr>
      | None \<Rightarrow> s)"

text \<open>A task is live when it is neither done nor asked to stop.\<close>

definition live :: "forwarder \<Rightarrow> handle \<Rightarrow> bool" where
  "live s h = (case lookup (tasks s) h of Some t \<Rightarrow> status t = Running | None \<Rightarrow> False)"

text \<open>The payload a task forwards.\<close>

definition task_msg_id :: "task \<Rightarrow> string" where
  "task_msg_id t = (case coro t of ForwardStored m _ _ _ \<Rightarrow> m | ScheduleForward m _ _ \<Rightarrow> m)"

text \<open>The live tasks on the event loop that forward a given payload.\<close>

definition live_tasks_of :: "forwarder \<Rightarrow> string \<Rightarrow> handle list" where
  "live_tasks_of s msg_id =
     filter (\<lambda>h. live s h \<and> task_msg_id (tasks s ! h) = msg_id) [0..<length (tasks s)]"

section \<open>Identifier allocation\<close>

text \<open>
  \<open>generate_campaign_id(length)\<close>. The existing identifiers are the keys of
  \<open>stored_messages\<close>. \<open>draws\<close> are the strings the random generator yields, in order
  (each of \<open>length + 1\<close> characters in the source); \<open>None\<close> means that all of them are
  taken, so the \<open>while True\<close> loop has not ended within them.
\<close>

definition single_digits :: "string list" where
  "single_digits = map (\<lambda>c. [c]) ''123456789''"

definition generate_campaign_id :: "string list \<Rightarrow> forwarder \<Rightarrow> string option" where
  "generate_campaign_id draws s =
     (let existing_ids = set (map fst (stored_messages s)) in
      case find (\<lambda>id_str. id_str \<notin> existing_ids) single_digits of
        Some id_str \<Rightarrow> Some id_str
      | None \<Rightarrow>
          (case find (\<lambda>char. char \<notin> existing_ids) (map (\<lambda>c. [c]) ascii_uppercase) of
             Some char \<Rightarrow> Some char
           | None \<Rightarrow> find (\<lambda>id_str. id_str \<notin> existing_ids) draws))"

section \<open>Payload commands\<close>

text \<open>\<open>cmd_setad\<close>: saves the replied-to message under a generated identifier.\<close>

definition cmd_setad :: "string list \<Rightarrow> handler" where
  "cmd_setad draws s ev =
     (case ev_reply_to ev of
        None \<Rightarrow> Some (s, [Reply_to_message_first])
      | Some replied_msg \<Rightarrow>
          (case generate_campaign_id draws s of
             None \<Rightarrow> None
           | Some msg_id \<Rightarrow>
               Some (s\<lparr>stored_messages := AList.update msg_id replied_msg (stored_messages s)\<rparr>,
                     [Saved msg_id])))"

text \<open>
  \<open>cmd_removead\<close>. The loop over \<open>_forwarding_tasks.items()\<close> acts on the entries whose
  key equals \<open>msg_id\<close>; a dict has at most one, so it is the lookup of that key.
\<close>

definition cmd_removead :: handler where
  "cmd_removead s ev =
     (let command_parts = py_split (ev_text ev) in
      if length command_parts \<noteq> 2 then Some (s, [Usage])
      else
        (let msg_id = command_parts ! 1 in
         if map_of (stored_messages s) msg_id = None then Some (s, [Message_not_found msg_id])
         else
           (let s1 = (case map_of (forwarding_tasks s) msg_id of
                        Some h \<Rightarrow>
                          if \<not> task_done s h
                          then (cancel h s)\<lparr>forwarding_tasks := AList.delete msg_id (forwarding_tasks s)\<rparr>
                          else s
                      | None \<Rightarrow> s) in
            Some (s1\<lparr>stored_messages := AList.delete msg_id (stored_messages s1)\<rparr>,
                  [Removed msg_id]))))"

section \<open>Recurring forwarding\<close>

text \<open>\<open>cmd_startad\<close>.\<close>

definition cmd_startad :: handler where
  "cmd_startad s ev =
     (let command_parts = py_split (ev_text ev);
          msg_id = (if length command_parts \<ge> 2 then command_parts ! 1 else ''default'');
          parsed = (if length command_parts \<ge> 3 then py_int (command_parts ! 2)
                    else Some (forward_interval s)) in
      case parsed of
        None \<Rightarrow> Some (s, [Invalid_interval])
      | Some interval \<Rightarrow>
          if length command_parts \<ge> 3 \<and> interval < 60 then Some (s, [Interval_too_small])
          else if map_of (stored_messages s) msg_id = None then
            (if msg_id = ''default'' \<and> stored_messages s = []
             then Some (s, [No_message_set])
             else Some (s, [Message_not_found msg_id]))
          else if set_at s (target_chats s) = [] then Some (s, [No_targets])
          else
            (let s1 = (case map_of (forwarding_tasks s) msg_id of
                         Some h \<Rightarrow> if \<not> task_done s h then cancel h s else s
                       | None \<Rightarrow> s);
                 (h', s2) = create_task (ForwardStored msg_id None (Some interval) None) s1 in
             Some (s2\<lparr>forwarding_tasks := AList.update msg_id h' (forwarding_tasks s2)\<rparr>,
                   [Campaign_started msg_id interval])))"

text \<open>\<open>s.split(',')\<close> and \<open>s.strip()\<close>.\<close>

fun split_comma_acc :: "string \<Rightarrow> string \<Rightarrow> string list" where
  "split_comma_acc cur [] = [cur]"
| "split_comma_acc cur (c # cs) =
     (if c = CHR '','' then cur # split_comma_acc [] cs else split_comma_acc (cur @ [c]) cs)"

definition strip :: "string \<Rightarrow> string" where
  "strip s = rev (dropWhile is_space (rev (dropWhile is_space s)))"

text \<open>
  The target loop of \<open>cmd_targetedad\<close>: a numeric token is taken as it is, any other is
  resolved by \<open>client.get_entity\<close> (\<open>None\<close> when that raises), and the first token that
  does not resolve ends the command. \<open>Inl\<close> carries that token.
\<close>

fun parse_targets :: "(string \<Rightarrow> int option) \<Rightarrow> string list \<Rightarrow> int list \<Rightarrow> string + int list" where
  "parse_targets get_entity [] targets = Inr targets"
| "parse_targets get_entity (t # ts) targets =
     (let target = strip t in
      if target = [] then parse_targets get_entity ts targets
      else case py_int target of
             Some chat_id \<Rightarrow> parse_targets get_entity ts (targets @ [chat_id])
           | None \<Rightarrow>
               (case get_entity target of
                  Some entity_id \<Rightarrow> parse_targets get_entity ts (targets @ [entity_id])
                | None \<Rightarrow> Inl target))"

text \<open>\<open>cmd_targetedad\<close>. \<open>now\<close> is \<open>time.time()\<close>.\<close>

definition cmd_targetedad :: "(string \<Rightarrow> int option) \<Rightarrow> string list \<Rightarrow> int \<Rightarrow> handler" where
  "cmd_targetedad get_entity draws now s ev =
     (let command_parts = py_split (ev_text ev) in
      if length command_parts < 3 then Some (s, [Usage])
      else
        (let msg_id = command_parts ! 1; target_str = command_parts ! 2 in
         if map_of (stored_messages s) msg_id = None then Some (s, [Message_not_found msg_id])
         else
           case parse_targets get_entity (split_comma_acc [] target_str) [] of
             Inl target \<Rightarrow> Some (s, [Could_not_resolve target])
           | Inr targets \<Rightarrow>
               if targets = [] then Some (s, [No_valid_targets])
               else
                 (case (if length command_parts \<ge> 4 then py_int (command_parts ! 3)
                        else Some (forward_interval s)) of
                    None \<Rightarrow> Some (s, [Invalid_interval])
                  | Some interval \<Rightarrow>
                      if length command_parts \<ge> 4 \<and> interval < 60
                      then Some (s, [Interval_too_small])
                      else
                        (case generate_campaign_id draws s of
                           None \<Rightarrow> None
                         | Some campaign_id \<Rightarrow>
                             (let (a, s1) = new_set targets s;
                                  s2 = s1\<lparr>targeted_campaigns := AList.update campaign_id
                                          \<lparr>c_msg_id = msg_id, c_targets = a,
                                           c_interval = interval, c_start_time = now\<rparr>
                                          (targeted_campaigns s1)\<rparr>;
                                  (h, s3) = create_task
                                     (ForwardStored msg_id (Some a) (Some interval) None) s2 in
                              Some (s3\<lparr>forwarding_tasks := AList.update (''targeted_'' @ campaign_id) h
                                          (forwarding_tasks s3)\<rparr>,
                                    [Targeted_started campaign_id msg_id (length (remdups targets))
                                       interval]))))))"

section \<open>The forwarding coroutine\<close>

text \<open>\<open>str(n)\<close> for an integer.\<close>

fun str_nat :: "nat \<Rightarrow> string" where
  "str_nat n = (if n < 10 then [digits ! n] else str_nat (n div 10) @ [digits ! (n mod 10)])"

definition py_str :: "int \<Rightarrow> string" where
  "py_str i = (if i < 0 then CHR ''-'' # str_nat (nat (- i)) else str_nat (nat i))"

text \<open>The two analytics writes of one delivery attempt, under the day \<open>today\<close>.\<close>

definition record_success :: "string \<Rightarrow> string \<Rightarrow> forwarder \<Rightarrow> forwarder" where
  "record_success today campaign_key s =
     (let day = (case map_of (analytics_forwards s) today of None \<Rightarrow> [] | Some d \<Rightarrow> d);
          day1 = (if campaign_key \<notin> fst ` set day then day @ [(campaign_key, 0)] else day) in
      s\<lparr>analytics_forwards := AList.update today
           (map (\<lambda>(k, v). if k = campaign_key then (k, v + 1) else (k, v)) day1)
           (analytics_forwards s)\<rparr>)"

definition record_failure :: "string \<Rightarrow> string \<Rightarrow> string \<Rightarrow> forwarder \<Rightarrow> forwarder" where
  "record_failure today campaign_key reason s =
     (let day = (case map_of (analytics_failures s) today of None \<Rightarrow> [] | Some d \<Rightarrow> d);
          day1 = (if campaign_key \<notin> fst ` set day then day @ [(campaign_key, [])] else day) in
      s\<lparr>analytics_failures := AList.update today
           (map (\<lambda>(k, v). if k = campaign_key then (k, v @ [reason]) else (k, v)) day1)
           (analytics_failures s)\<rparr>)"

text \<open>
  One pass of the \<open>for target in use_targets\<close> loop. \<open>forward_to message target\<close> is the
  transport: \<open>None\<close> when the forward succeeds, the text of the exception otherwise.
\<close>

fun forward_pass :: "(message \<Rightarrow> int \<Rightarrow> string option) \<Rightarrow> string \<Rightarrow> string \<Rightarrow> message \<Rightarrow>
    int list \<Rightarrow> forwarder \<Rightarrow> forwarder" where
  "forward_pass forward_to today msg_id message [] s = s"
| "forward_pass forward_to today msg_id message (target # rest) s =
     (let campaign_key = msg_id @ ''_'' @ py_str target in
      forward_pass forward_to today msg_id message rest
        (case forward_to message target of
           None \<Rightarrow> record_success today campaign_key s
         | Some e \<Rightarrow> record_failure today campaign_key e s))"

definition set_status :: "handle \<Rightarrow> task_status \<Rightarrow> forwarder \<Rightarrow> forwarder" where
  "set_status h st s =
     (case lookup (tasks s) h of
        Some t \<Rightarrow> s\<lparr>tasks := (tasks s)[h := t\<lparr>status := st\<rparr>]\<rparr>
      | None \<Rightarrow> s)"

text \<open>
  \<open>forward_stored_message\<close>, from one wake-up of the task to its next sleep: the prologue
  on the first, then the payload check and one pass over the targets. A requested
  cancellation arrives as \<open>CancelledError\<close> at the wake-up and ends the task; so does the
  \<open>return\<close> of the prologue and the \<open>break\<close> of the loop. None of these branches removes
  the task from \<open>_forwarding_tasks\<close>. A pass is taken as one step: no command runs
  inside it.
\<close>

definition forward_stored_message_wake ::
    "(message \<Rightarrow> int \<Rightarrow> string option) \<Rightarrow> string \<Rightarrow> handle \<Rightarrow> forwarder \<Rightarrow> forwarder" where
  "forward_stored_message_wake forward_to today h s =
     (case lookup (tasks s) h of
        None \<Rightarrow> s
      | Some t \<Rightarrow>
          (case coro t of
             ScheduleForward m a tm \<Rightarrow> s
           | ForwardStored msg_id targets interval bound \<Rightarrow>
               if status t = Done then s
               else if status t = CancelRequested then set_status h Done s
               else
                 (case (case bound of
                          Some b \<Rightarrow> Some b
                        | None \<Rightarrow>
                            (case map_of (stored_messages s) msg_id of
                               None \<Rightarrow> None
                             | Some message \<Rightarrow>
                                 Some (message,
                                       (case targets of Some a \<Rightarrow> a | None \<Rightarrow> target_chats s),
                                       (case interval of Some i \<Rightarrow> i
                                        | None \<Rightarrow> forward_interval s)))) of
                    None \<Rightarrow> set_status h Done s
                  | Some (message, use_targets, use_interval) \<Rightarrow>
                      if map_of (stored_messages s) msg_id = None then set_status h Done s
                      else
                        (let s1 = forward_pass forward_to today msg_id message
                                    (set_at s use_targets) s in
                         s1\<lparr>tasks := (tasks s1)[h := t\<lparr>coro := ForwardStored msg_id targets
                                 interval (Some (message, use_targets, use_interval))\<rparr>]\<rparr>))))"

section \<open>One-shot schedules\<close>

text \<open>
  \<open>_schedule_forward\<close> at its fire time (the end of its sleep, or at once when the wait
  is not positive). The second component lists the targets \<open>forward_to\<close> is called on.
  A missing payload raises \<open>KeyError\<close>, which the coroutine catches and returns on.
\<close>

definition schedule_forward_fire :: "handle \<Rightarrow> forwarder \<Rightarrow> forwarder \<times> int list" where
  "schedule_forward_fire h s =
     (case lookup (tasks s) h of
        None \<Rightarrow> (s, [])
      | Some t \<Rightarrow>
          (case coro t of
             ForwardStored m a i b \<Rightarrow> (s, [])
           | ScheduleForward msg_id targets schedule_time \<Rightarrow>
               if status t = Done then (s, [])
               else if status t = CancelRequested then (set_status h Done s, [])
               else
                 (case map_of (stored_messages s) msg_id of
                    None \<Rightarrow> (set_status h Done s, [])
                  | Some message \<Rightarrow> (set_status h Done s, set_at s targets))))"

text \<open>
  A naive \<open>datetime\<close> is a point of the proleptic Gregorian calendar: the model is the
  number of microseconds since 0001-01-01 00:00, and a \<open>timedelta\<close> a number of
  microseconds. \<open>datetime.max\<close> is the last microsecond of the year 9999.
\<close>

definition us_per_minute :: int where "us_per_minute = 60000000"
definition us_per_hour :: int where "us_per_hour = 3600000000"
definition us_per_day :: int where "us_per_day = 86400000000"
definition datetime_max :: int where "datetime_max = 3652059 * 86400000000 - 1"

text \<open>\<open>dt + delta\<close>, which raises \<open>OverflowError\<close> outside the calendar.\<close>

definition dt_add :: "int \<Rightarrow> int \<Rightarrow> py_error + int" where
  "dt_add dt delta =
     (if 0 \<le> dt + delta \<and> dt + delta \<le> datetime_max then Inr (dt + delta)
      else Inl OverflowError)"

text \<open>\<open>dt.replace(hour=h, minute=m, second=0, microsecond=0)\<close>.\<close>

definition dt_replace :: "int \<Rightarrow> nat \<Rightarrow> nat \<Rightarrow> py_error + int" where
  "dt_replace dt h m =
     (if h \<le> 23 \<and> m \<le> 59
      then Inr (dt div us_per_day * us_per_day + int h * us_per_hour + int m * us_per_minute)
      else Inl ValueError)"

text \<open>
  \<open>re.match(r'(\d+)([mh])', s)\<close>: the digits at the start of \<open>s\<close>, at least one, followed
  by \<open>m\<close> or \<open>h\<close>; whatever follows is not looked at.
\<close>

definition relative_match :: "string \<Rightarrow> (string \<times> char) option" where
  "relative_match s =
     (let ds = takeWhile is_digit s; rest = dropWhile is_digit s in
      case rest of
        [] \<Rightarrow> None
      | u # _ \<Rightarrow> if ds \<noteq> [] \<and> (u = CHR ''m'' \<or> u = CHR ''h'') then Some (ds, u) else None)"

text \<open>\<open>re.match(r'(\d{1,2}):(\d{2})', s)\<close>, two-digit hours tried first.\<close>

fun time_only_match :: "string \<Rightarrow> (string \<times> string) option" where
  "time_only_match (a # b # c # d # e # rest) =
     (if is_digit a \<and> is_digit b \<and> c = CHR '':'' \<and> is_digit d \<and> is_digit e
        then Some ([a, b], [d, e])
      else if is_digit a \<and> b = CHR '':'' \<and> is_digit c \<and> is_digit d then Some ([a], [c, d])
      else None)"
| "time_only_match [a, b, c, d] =
     (if is_digit a \<and> b = CHR '':'' \<and> is_digit c \<and> is_digit d then Some ([a], [c, d])
      else None)"
| "time_only_match s = None"

text \<open>
  The "Parse the time" block of \<open>cmd_schedule\<close>. \<open>strptime\<close> stands for
  \<open>datetime.strptime(time_str, '%Y-%m-%d %H:%M')\<close>, \<open>None\<close> when it raises
  \<open>ValueError\<close>. \<open>Inl ValueError\<close> is an exception the inner \<open>except ValueError\<close>
  catches, \<open>Inl OverflowError\<close> one that reaches the handler's outer \<open>except\<close>;
  \<open>Inr None\<close> is \<open>schedule_time\<close> left at \<open>None\<close>.
\<close>

definition parse_schedule_time :: "(string \<Rightarrow> int option) \<Rightarrow> int \<Rightarrow> string \<Rightarrow>
    py_error + int option" where
  "parse_schedule_time strptime now time_str =
     (case relative_match time_str of
        Some (value, unit) \<Rightarrow>
          if unit = CHR ''m''
            then map_sum id Some (dt_add now (int (digits_val value) * us_per_minute))
          else if unit = CHR ''h''
            then map_sum id Some (dt_add now (int (digits_val value) * us_per_hour))
          else Inr None
      | None \<Rightarrow>
          (case time_only_match time_str of
             Some (hour, minute) \<Rightarrow>
               (case dt_replace now (digits_val hour) (digits_val minute) of
                  Inl e \<Rightarrow> Inl e
                | Inr schedule_time \<Rightarrow>
                    if schedule_time < now then map_sum id Some (dt_add schedule_time us_per_day)
                    else Inr (Some schedule_time))
           | None \<Rightarrow>
               (case strptime time_str of
                  None \<Rightarrow> Inl ValueError
                | Some schedule_time \<Rightarrow> Inr (Some schedule_time))))"

text \<open>\<open>cmd_schedule\<close>. \<open>now\<close> is \<open>datetime.now()\<close>.\<close>

definition cmd_schedule :: "(string \<Rightarrow> int option) \<Rightarrow> string list \<Rightarrow> int \<Rightarrow> handler" where
  "cmd_schedule strptime draws now s ev =
     (let command_parts = py_split_max 2 (ev_text ev) in
      if length command_parts < 3 then Some (s, [Usage])
      else
        (let msg_id = command_parts ! 1; time_str = command_parts ! 2 in
         if map_of (stored_messages s) msg_id = None then Some (s, [Message_not_found msg_id])
         else
           case parse_schedule_time strptime now time_str of
             Inl ValueError \<Rightarrow> Some (s, [Invalid_time_format time_str])
           | Inl e \<Rightarrow> Some (s, [Error_reply])
           | Inr None \<Rightarrow> Some (s, [Could_not_parse_time time_str])
           | Inr (Some schedule_time) \<Rightarrow>
               if schedule_time < now then Some (s, [Must_be_in_future])
               else
                 (case generate_campaign_id draws s of
                    None \<Rightarrow> None
                  | Some i \<Rightarrow>
                      (let schedule_id = ''sched_'' @ i;
                           (h, s1) = create_task
                              (ScheduleForward msg_id (target_chats s) schedule_time) s in
                       Some (s1\<lparr>scheduled_tasks := AList.update schedule_id h (scheduled_tasks s1)\<rparr>,
                             [Scheduled schedule_id msg_id schedule_time])))))"

section \<open>Admin management\<close>

text \<open>
  The "Try to get user ID" block shared by \<open>cmd_addadmin\<close> and \<open>cmd_removeadmin\<close>:
  \<open>Inl\<close> is the reply that ends the command.
\<close>

definition get_user_id :: "(string \<Rightarrow> int option) \<Rightarrow> string \<Rightarrow> reply + int" where
  "get_user_id get_entity user_id_or_username =
     (if isdigit user_id_or_username then
        (case py_int user_id_or_username of
           Some user_id \<Rightarrow> Inr user_id
         | None \<Rightarrow> Inl Error_reply)
      else
        (case get_entity user_id_or_username of
           Some entity_id \<Rightarrow> Inr entity_id
         | None \<Rightarrow> Inl (Could_not_resolve user_id_or_username)))"

text \<open>\<open>cmd_addadmin\<close>.\<close>

definition cmd_addadmin :: "(string \<Rightarrow> int option) \<Rightarrow> handler" where
  "cmd_addadmin get_entity s ev =
     (let command_parts = py_split (ev_text ev) in
      if length command_parts < 2 then Some (s, [Usage])
      else
        (case get_user_id get_entity (command_parts ! 1) of
           Inl r \<Rightarrow> Some (s, [r])
         | Inr user_id \<Rightarrow>
             if user_id |\<in>| admins s then Some (s, [Already_admin user_id])
             else Some (s\<lparr>admins := finsert user_id (admins s)\<rparr>, [Admin_added user_id])))"

text \<open>\<open>cmd_removeadmin\<close>. \<open>admin_ids\<close> is \<open>config.ADMIN_IDS\<close>.\<close>

definition cmd_removeadmin :: "int list \<Rightarrow> (string \<Rightarrow> int option) \<Rightarrow> handler" where
  "cmd_removeadmin admin_ids get_entity s ev =
     (let command_parts = py_split (ev_text ev) in
      if length command_parts < 2 then Some (s, [Usage])
      else
        (case get_user_id get_entity (command_parts ! 1) of
           Inl r \<Rightarrow> Some (s, [r])
         | Inr user_id \<Rightarrow>
             if user_id \<in> set admin_ids \<and> fcard (admins s) \<le> 1
               then Some (s, [Cannot_remove_original_admin])
             else if user_id |\<notin>| admins s then Some (s, [Not_an_admin user_id])
             else Some (s\<lparr>admins := admins s |-| {|user_id|}\<rparr>, [Admin_removed user_id])))"

section \<open>Analytics\<close>

text \<open>Python's \<open>a / b\<close> on integers.\<close>

definition truediv :: "int \<Rightarrow> int \<Rightarrow> py_error + rat" where
  "truediv a b = (if b = 0 then Inl ZeroDivisionError else Inr (of_int a / of_int b))"

text \<open>The sums of one day: forwards counted, failures by the length of their lists.\<close>

definition day_forwards :: "forwarder \<Rightarrow> string \<Rightarrow> int" where
  "day_forwards s date =
     (case map_of (analytics_forwards s) date of None \<Rightarrow> 0 | Some d \<Rightarrow> sum_list (map snd d))"

definition day_failures :: "forwarder \<Rightarrow> string \<Rightarrow> int" where
  "day_failures s date =
     (case map_of (analytics_failures s) date of
        None \<Rightarrow> 0 | Some d \<Rightarrow> sum_list (map (\<lambda>(k, v). int (length v)) d))"

text \<open>
  The report of \<open>cmd_analytics\<close> for \<open>days\<close> days. \<open>today\<close> is the day number of
  \<open>datetime.now()\<close> and \<open>strftime d\<close> the \<open>'%Y-%m-%d'\<close> text of day \<open>d\<close>.
\<close>

definition analytics_report :: "(int \<Rightarrow> string) \<Rightarrow> int \<Rightarrow> int \<Rightarrow> forwarder \<Rightarrow> py_error + report" where
  "analytics_report strftime today days s =
     (let date_list = rev (map (\<lambda>i. strftime (today - int i)) [0..<nat days]);
          daily_stats = map (\<lambda>date. (date, day_forwards s date, day_failures s date)) date_list;
          total_forwards = sum_list (map (\<lambda>(d, f, x). f) daily_stats);
          total_failures = sum_list (map (\<lambda>(d, f, x). x) daily_stats) in
      case (if total_forwards + total_failures > 0
            then map_sum id (\<lambda>q. q * 100) (truediv total_forwards (total_forwards + total_failures))
            else Inr 0) of
        Inl e \<Rightarrow> Inl e
      | Inr rate \<Rightarrow>
          (case (if days \<ge> 2 \<and> length daily_stats \<ge> 2 then
                   (let today_forwards = fst (snd (last daily_stats));
                        yesterday_forwards = fst (snd (daily_stats ! (length daily_stats - 2))) in
                    if yesterday_forwards > 0
                    then map_sum id (\<lambda>q. Some (q * 100))
                           (truediv (today_forwards - yesterday_forwards) yesterday_forwards)
                    else Inr None)
                 else Inr None) of
             Inl e \<Rightarrow> Inl e
           | Inr change \<Rightarrow>
               Inr \<lparr>r_days = days, r_total_forwards = total_forwards,
                    r_total_failures = total_failures, r_success_rate = rate,
                    r_daily = daily_stats, r_change = change\<rparr>))"

text \<open>\<open>cmd_analytics\<close>.\<close>

definition cmd_analytics :: "(int \<Rightarrow> string) \<Rightarrow> int \<Rightarrow> handler" where
  "cmd_analytics strftime today s ev =
     (let command_parts = py_split (ev_text ev) in
      case (if length command_parts > 1 then py_int (command_parts ! 1) else Some 7) of
        None \<Rightarrow> Some (s, [Invalid_days])
      | Some days \<Rightarrow>
          if length command_parts > 1 \<and> (days \<le> 0 \<or> days > 30)
          then Some (s, [Days_out_of_range])
          else (case analytics_report strftime today days s of
                  Inl e \<Rightarrow> Some (s, [Error_reply])
                | Inr r \<Rightarrow> Some (s, [Analytics_report r])))"

section \<open>Command sequences and sample inputs\<close>

text \<open>
  Commands handled one after the other, each through the decorator: the call gives the
  handler's name, the handler and the event.
\<close>

fun run_commands :: "(string \<times> handler \<times> event) list \<Rightarrow> forwarder \<Rightarrow>
    (forwarder \<times> reply list) option" where
  "run_commands [] s = Some (s, [])"
| "run_commands ((fname, func, ev) # rest) s =
     (case admin_only fname func s ev of
        None \<Rightarrow> None
      | Some (s1, replies1) \<Rightarrow>
          (case run_commands rest s1 of
             None \<Rightarrow> None
           | Some (s2, replies2) \<Rightarrow> Some (s2, replies1 @ replies2)))"

text \<open>A plain command text from a sender, not a reply to any message.\<close>

definition command :: "int \<Rightarrow> string \<Rightarrow> event" where
  "command sender text = \<lparr>ev_text = text, ev_sender = Some sender, ev_reply_to = None\<rparr>"

text \<open>A client whose \<open>get_entity\<close> resolves nothing, and a \<open>strptime\<close> that parses
  nothing.\<close>

definition no_entity :: "string \<Rightarrow> int option" where
  "no_entity name = None"

definition no_strptime :: "string \<Rightarrow> int option" where
  "no_strptime text = None"

text \<open>An enabled forwarder with the given admins and destination set.\<close>

definition running :: "int list \<Rightarrow> int list \<Rightarrow> forwarder" where
  "running admin_ids targets =
     (init admin_ids)\<lparr>forwarding_enabled := True, set_objs := [remdups targets]\<rparr>"

text \<open>A rendering of day numbers, and a ledger with two days of outcomes.\<close>

definition day_name :: "int \<Rightarrow> string" where
  "day_name d = ''day'' @ py_str d"

definition ledger :: forwarder where
  "ledger = (running [1] [100, 200])
     \<lparr>analytics_forwards := [(''day9'', [(''1_100'', 2)]),
                             (''day10'', [(''1_100'', 2), (''1_200'', 1)])],
      analytics_failures := [(''day10'', [(''1_200'', [''flood''])])]\<rparr>"

text \<open>
  An enabled forwarder of admin 1 that holds one payload, saved as \<open>1\<close>, and noon of
  2026-11-04 as a \<open>datetime\<close>.
\<close>

definition saved :: "int list \<Rightarrow> forwarder" where
  "saved targets = (running [1] targets)\<lparr>stored_messages := [(''1'', 1001)]\<rparr>"

definition noon :: int where
  "noon = 63929390400000000"

text \<open>
  The states reached from \<open>saved [100]\<close> by \<open>/schedule 1 5m\<close> at noon, by
  \<open>/targetedad 1 200,300 60\<close>, and by a second \<open>/targetedad 1 400 90\<close> after that.
\<close>

definition pending :: forwarder where
  "pending = (saved [100])
     \<lparr>scheduled_tasks := [(''sched_2'', 0)],
      tasks := [\<lparr>coro = ScheduleForward ''1'' 0 (noon + 300000000), status = Running\<rparr>]\<rparr>"

definition targeted :: forwarder where
  "targeted = (saved [100])
     \<lparr>forwarding_tasks := [(''targeted_2'', 0)],
      targeted_campaigns := [(''2'', \<lparr>c_msg_id = ''1'', c_targets = 1, c_interval = 60,
                                      c_start_time = 0\<rparr>)],
      set_objs := [[100], [200, 300]],
      tasks := [\<lparr>coro = ForwardStored ''1'' (Some 1) (Some 60) None, status = Running\<rparr>]\<rparr>"

definition targeted_twice :: forwarder where
  "targeted_twice = (saved [100])
     \<lparr>forwarding_tasks := [(''targeted_2'', 1)],
      targeted_campaigns := [(''2'', \<lparr>c_msg_id = ''1'', c_targets = 2, c_interval = 90,
                                      c_start_time = 5\<rparr>)],
      set_objs := [[100], [200, 300], [400]],
      tasks := [\<lparr>coro = ForwardStored ''1'' (Some 1) (Some 60) None, status = Running\<rparr>,
                \<lparr>coro = ForwardStored ''1'' (Some 2) (Some 90) None, status = Running\<rparr>]\<rparr>"

section \<open>Properties of the authorization decorator\<close>

lemmas str_defs = py_split_def py_split_max_def is_space_def is_digit_def digits_def
  py_lower_def lower_char_def ascii_uppercase_def ascii_lowercase_def command_name_def
  startswith_def isdigit_def py_int_def digits_val_def digit_val_def

text \<open>
  C3. On every invocation the decorator applies the rules of the gate in their order: a
  sender outside the admin set is dropped with no reply; otherwise the start command
  while disabled runs its handler; otherwise any command while disabled is dropped, with
  the offline notice unless its name starts with \<open>/silent\<close>; otherwise the handler
  runs. A wrapped command that takes the forwarder out of the disabled state is the
  start command.
\<close>

theorem admin_only_follows_authorize:
  assumes "command_name (ev_text ev) = Inr cname" and "ev_sender ev = Some sender"
  shows "admin_only fname func s ev =
           (case authorize (admins s) sender (fname = ''cmd_start'' \<or> cname = ''/start'')
                   (startswith cname ''/silent'') (lifecycle_of s) of
              (Deny, notice) \<Rightarrow> Some (s, if notice then [Offline] else [])
            | (AllowBypass, notice) \<Rightarrow> func s ev
            | (Allow, notice) \<Rightarrow> func s ev)
         \<and> (\<not> forwarding_enabled s
              \<and> (\<exists>s' rs. admin_only fname func s ev = Some (s', rs) \<and> forwarding_enabled s')
            \<longrightarrow> fname = ''cmd_start'' \<or> cname = ''/start'')"
  using assms by (auto simp add: admin_only_def authorize_def lifecycle_of_def)

theorem admin_only_follows_authorize_witness:
  "admin_only ''cmd_status'' (cmd_start True) (init [7]) (command 7 ''/status'')
     = Some (init [7], [Offline])
   \<and> admin_only ''cmd_start'' (cmd_start True) (init [7]) (command 7 ''/start'')
     = Some ((init [7])\<lparr>forwarding_enabled := True\<rparr>, [Welcome])"
proof -
  have c1: "command_name (ev_text (command 7 ''/status'')) = Inr ''/status''"
    by (simp add: command_def str_defs)
  have c2: "command_name (ev_text (command 7 ''/start'')) = Inr ''/start''"
    by (simp add: command_def str_defs)
  have u1: "ev_sender (command 7 ''/status'') = Some 7" by (simp add: command_def)
  have u2: "ev_sender (command 7 ''/start'') = Some 7" by (simp add: command_def)
  show ?thesis
    using admin_only_follows_authorize [OF c1 u1, of "''cmd_status''" "cmd_start True" "init [7]"]
      admin_only_follows_authorize [OF c2 u2, of "''cmd_start''" "cmd_start True" "init [7]"]
    by (simp add: authorize_def lifecycle_of_def init_def startswith_def cmd_start_def)
qed

text \<open>
  C4. While the forwarder is disabled, a command that is not the start command never
  reaches its handler: whatever the handler is, the call returns the state it was given,
  every field of it, and replies with nothing or with the offline notice alone.
\<close>

theorem disabled_rejects_without_mutation:
  assumes "\<not> forwarding_enabled s" and "\<not> is_start_command fname ev"
  shows "admin_only fname func s ev = Some (s, [])
       \<or> admin_only fname func s ev = Some (s, [Offline])"
  using assms
  by (auto simp add: admin_only_def is_start_command_def Let_def split: sum.splits option.splits)

theorem disabled_rejects_without_mutation_witness:
  "admin_only ''cmd_removeadmin'' (cmd_removeadmin [7] no_entity) (init [7])
      (command 7 ''/removeadmin 7'') = Some (init [7], [Offline])"
proof -
  have d: "\<not> forwarding_enabled (init [7])" by (simp add: init_def)
  have n: "\<not> is_start_command ''cmd_removeadmin'' (command 7 ''/removeadmin 7'')"
    by (simp add: is_start_command_def command_def str_defs)
  have "admin_only ''cmd_removeadmin'' (cmd_removeadmin [7] no_entity) (init [7])
      (command 7 ''/removeadmin 7'') \<noteq> Some (init [7], [])"
    by (simp add: admin_only_def command_def str_defs init_def)
  with disabled_rejects_without_mutation [OF d n, of "cmd_removeadmin [7] no_entity"]
  show ?thesis by blast
qed

section \<open>Properties of admin removal\<close>

text \<open>
  C5, as stated, fails: with the configured admins \<open>[1]\<close> and the admin set \<open>{1, 2}\<close>,
  admin 1 is the only configured admin left in the set, yet \<open>/removeadmin 1\<close> removes
  it.
\<close>

theorem removeadmin_sole_original_counterexample:
  "cmd_removeadmin [1] no_entity ((running [1] [])\<lparr>admins := {|1, 2|}\<rparr>)
      (command 2 ''/removeadmin 1'')
   = Some ((running [1] [])\<lparr>admins := {|2|}\<rparr>, [Admin_removed 1])"
  by (simp add: cmd_removeadmin_def command_def get_user_id_def str_defs
      running_def init_def Let_def fcard_finsert_if)

text \<open>
  C5, amended. Removing an admin is refused, and the state is returned as it was,
  whenever the target is one of the configured admins and the admin set has at most one
  member; so it is when the admin set is \<open>{X}\<close> for a configured admin \<open>X\<close>.
\<close>

theorem removeadmin_last_admin_protected:
  assumes "2 \<le> length (py_split (ev_text ev))"
    and "get_user_id get_entity (py_split (ev_text ev) ! 1) = Inr target"
    and "target \<in> set admin_ids" and "fcard (admins s) \<le> 1"
  shows "cmd_removeadmin admin_ids get_entity s ev = Some (s, [Cannot_remove_original_admin])"
  using assms by (simp add: cmd_removeadmin_def Let_def)

theorem removeadmin_last_admin_protected_witness:
  "cmd_removeadmin [1] no_entity (running [1] []) (command 1 ''/removeadmin 1'')
   = Some (running [1] [], [Cannot_remove_original_admin])
   \<and> admins (running [1] []) = {|1|}"
proof -
  have l: "2 \<le> length (py_split (ev_text (command 1 ''/removeadmin 1'')))"
    by (simp add: command_def str_defs)
  have g: "get_user_id no_entity (py_split (ev_text (command 1 ''/removeadmin 1'')) ! 1) = Inr 1"
    by (simp add: command_def get_user_id_def str_defs
        )
  have m: "(1::int) \<in> set [1]" by simp
  have c: "fcard (admins (running [1] [])) \<le> 1"
    by (simp add: running_def init_def fcard_finsert_if)
  show ?thesis
    using removeadmin_last_admin_protected [OF l g m c]
    by (simp add: running_def init_def)
qed

text \<open>With no admin left, every sequence of commands leaves the state alone and replies
  nothing.\<close>

lemma run_commands_no_admins:
  "admins s = {||} \<Longrightarrow> run_commands cmds s = Some (s, [])"
proof (induction cmds)
  case Nil
  then show ?case by simp
next
  case (Cons c cmds)
  obtain fname func ev where c: "c = (fname, func, ev)" by (cases c)
  have "admin_only fname func s ev = Some (s, [])"
    using Cons.prems by (simp add: admin_only_def split: sum.splits option.splits)
  with Cons c show ?case by simp
qed

text \<open>
  C10. For a target that resolves, the removal is refused exactly when the target is a
  configured admin and the admin set has at most one member. Hence the last admin, when
  it is not a configured one, is removed; the admin set is then empty, and from there
  every command of every sender is dropped without a reply.
\<close>

theorem removeadmin_guard_and_lockout:
  assumes "2 \<le> length (py_split (ev_text ev))"
    and "get_user_id get_entity (py_split (ev_text ev) ! 1) = Inr target"
  shows "(cmd_removeadmin admin_ids get_entity s ev = Some (s, [Cannot_remove_original_admin])
            \<longleftrightarrow> target \<in> set admin_ids \<and> fcard (admins s) \<le> 1)
       \<and> (admins s = {|target|} \<and> target \<notin> set admin_ids \<longrightarrow>
            cmd_removeadmin admin_ids get_entity s ev
              = Some (s\<lparr>admins := {||}\<rparr>, [Admin_removed target])
            \<and> (\<forall>cmds. run_commands cmds (s\<lparr>admins := {||}\<rparr>) = Some (s\<lparr>admins := {||}\<rparr>, [])))"
proof -
  have "\<And>cmds. run_commands cmds (s\<lparr>admins := {||}\<rparr>) = Some (s\<lparr>admins := {||}\<rparr>, [])"
    by (rule run_commands_no_admins) simp
  then show ?thesis
    using assms by (auto simp add: cmd_removeadmin_def Let_def)
qed

theorem removeadmin_guard_and_lockout_witness:
  "cmd_removeadmin [1] no_entity ((running [1] [])\<lparr>admins := {|2|}\<rparr>) (command 2 ''/removeadmin 2'')
     = Some ((running [1] [])\<lparr>admins := {||}\<rparr>, [Admin_removed 2])
   \<and> run_commands [(''cmd_start'', cmd_start True, command 2 ''/start''),
                     (''cmd_addadmin'', cmd_addadmin no_entity, command 1 ''/addadmin 1'')]
        ((running [1] [])\<lparr>admins := {||}\<rparr>)
     = Some ((running [1] [])\<lparr>admins := {||}\<rparr>, [])"
proof -
  have l: "2 \<le> length (py_split (ev_text (command 2 ''/removeadmin 2'')))"
    by (simp add: command_def str_defs)
  have g: "get_user_id no_entity (py_split (ev_text (command 2 ''/removeadmin 2'')) ! 1) = Inr 2"
    by (simp add: command_def get_user_id_def str_defs
        )
  show ?thesis
    using removeadmin_guard_and_lockout [OF l g, of "[1]" "(running [1] [])\<lparr>admins := {|2|}\<rparr>"]
    by simp
qed

section \<open>Properties of the analytics report\<close>

text \<open>The newest two entries of the date list are today and the day before.\<close>

lemma date_list_last:
  assumes "2 \<le> n"
  shows "last (rev (map f [0..<n])) = f 0"
    and "rev (map f [0..<n]) ! (n - 2) = f 1"
proof -
  from assms have ne: "[0..<n] \<noteq> []" by simp
  show "last (rev (map f [0..<n])) = f 0"
    using ne by (simp add: last_rev hd_map)
  have "rev (map f [0..<n]) ! (n - 2) = map f [0..<n] ! (length (map f [0..<n]) - Suc (n - 2))"
    using assms by (subst rev_nth) simp_all
  also have "\<dots> = f 1" using assms by (simp add: Suc_diff_Suc)
  finally show "rev (map f [0..<n]) ! (n - 2) = f 1" .
qed

text \<open>
  C9. The report never fails on a division. Its success rate is
  \<open>forwards / (forwards + failures) * 100\<close> when that sum is positive and 0 otherwise, in
  particular when the sum is 0. The change between the two most recent days is computed
  from yesterday's forwards only when at least two days are asked for and that count is
  positive; when it is 0 the change is left out.
\<close>

theorem analytics_report_rates:
  "case analytics_report strftime today days s of
     Inl e \<Rightarrow> False
   | Inr r \<Rightarrow>
       r_success_rate r =
         (if r_total_forwards r + r_total_failures r > 0
          then of_int (r_total_forwards r) / of_int (r_total_forwards r + r_total_failures r) * 100
          else 0)
       \<and> (r_total_forwards r + r_total_failures r = 0 \<longrightarrow> r_success_rate r = 0)
       \<and> r_change r =
           (if days \<ge> 2 \<and> day_forwards s (strftime (today - 1)) > 0
            then Some (of_int (day_forwards s (strftime today) - day_forwards s (strftime (today - 1)))
                       / of_int (day_forwards s (strftime (today - 1))) * 100)
            else None)
       \<and> (day_forwards s (strftime (today - 1)) = 0 \<longrightarrow> r_change r = None)"
proof (cases "days \<ge> 2")
  case True
  then have n: "2 \<le> nat days" by simp
  let ?f = "\<lambda>i. strftime (today - int i)"
  let ?g = "\<lambda>date. (date, day_forwards s date, day_failures s date)"
  have ne: "rev (map ?f [0..<nat days]) \<noteq> []" using n by simp
  have dl: "last (rev (map ?f [0..<nat days])) = strftime today"
    using date_list_last(1)[OF n, of ?f] by simp
  have dy: "rev (map ?f [0..<nat days]) ! (nat days - 2) = strftime (today - 1)"
    using date_list_last(2)[OF n, of ?f] by simp
  have l: "last (map ?g (rev (map ?f [0..<nat days]))) = ?g (strftime today)"
    unfolding last_map[OF ne] dl ..
  have "nat days - 2 < length (rev (map ?f [0..<nat days]))" using n by simp
  then have y: "map ?g (rev (map ?f [0..<nat days])) ! (nat days - 2) = ?g (strftime (today - 1))"
    unfolding nth_map dy by (simp add: dy)
  show ?thesis
    using True n l y
    by (simp add: analytics_report_def truediv_def Let_def)
next
  case False
  then show ?thesis
    by (simp add: analytics_report_def truediv_def Let_def)
qed

lemma day_names: "day_name 10 = ''day10''" "day_name 9 = ''day9''" "day_name (10 - 1) = ''day9''"
  by (simp_all add: day_name_def py_str_def digits_def)

theorem analytics_report_rates_witness:
  "day_forwards (running [1] []) (day_name (10 - 1)) = 0
   \<and> (\<exists>r. analytics_report day_name 10 2 (running [1] []) = Inr r
          \<and> r_total_forwards r + r_total_failures r = 0
          \<and> r_success_rate r = 0 \<and> r_change r = None)
   \<and> (\<exists>r. analytics_report day_name 10 2 ledger = Inr r
          \<and> r_total_forwards r = 5 \<and> r_total_failures r = 1
          \<and> r_success_rate r = 250 / 3 \<and> r_change r = Some 50)"
proof -
  have z: "day_forwards (running [1] []) (day_name (10 - 1)) = 0"
    by (simp add: day_forwards_def running_def init_def)
  have t0: "analytics_report day_name 10 2 (running [1] []) = Inr
      \<lparr>r_days = 2, r_total_forwards = 0, r_total_failures = 0, r_success_rate = 0,
       r_daily = [(''day9'', 0, 0), (''day10'', 0, 0)], r_change = None\<rparr>"
    by (simp add: analytics_report_def day_forwards_def day_failures_def running_def init_def
        Let_def day_names numeral_2_eq_2 upt_rec)
  have t1: "\<exists>r. analytics_report day_name 10 2 ledger = Inr r
      \<and> r_total_forwards r = 5 \<and> r_total_failures r = 1"
    by (simp add: analytics_report_def day_forwards_def day_failures_def ledger_def running_def
        init_def truediv_def Let_def day_names numeral_2_eq_2 upt_rec)
  have f: "day_forwards ledger (day_name 10) = 3" "day_forwards ledger (day_name (10 - 1)) = 2"
    by (simp_all add: day_forwards_def ledger_def day_names)
  show ?thesis
    using z t0 t1 f
      analytics_report_rates [where strftime = day_name and today = 10 and days = 2
        and s = "running [1] []"]
      analytics_report_rates [where strftime = day_name and today = 10 and days = 2
        and s = ledger]
    by (auto split: sum.splits)
qed

section \<open>Properties of the schedule command\<close>

text \<open>
  The time grammar. \<open><N>m\<close> and \<open><N>h\<close> are \<open>N\<close> minutes and hours from now,
  \<open>HH:MM\<close> is today at that time, moved to tomorrow when it is before now, and anything
  else is left to \<open>strptime\<close>.
\<close>

lemma not_digit_unit: "\<not> is_digit CHR ''m''" "\<not> is_digit CHR ''h''" "\<not> is_digit CHR '':''"
  by (simp_all add: is_digit_def digits_def)

lemma relative_match_digits:
  assumes "ds \<noteq> []" and "list_all is_digit ds" and "u = CHR ''m'' \<or> u = CHR ''h''"
  shows "relative_match (ds @ u # rest) = Some (ds, u)"
proof -
  from assms(3) have nd: "\<not> is_digit u" using not_digit_unit by auto
  from assms(2) have all: "\<And>x. x \<in> set ds \<Longrightarrow> is_digit x" by (simp add: list_all_iff)
  have tw: "takeWhile is_digit (ds @ u # rest) = ds"
    using all nd by (simp add: takeWhile_append2)
  have dw: "dropWhile is_digit (ds @ u # rest) = u # rest"
    using all nd by (simp add: dropWhile_append2)
  show ?thesis using assms(1,3) by (simp add: relative_match_def tw dw Let_def)
qed

lemma schedule_relative:
  assumes "ds \<noteq> []" and "list_all is_digit ds"
    and "0 \<le> now" and "now + int (digits_val ds) * us_per_hour \<le> datetime_max"
  shows "parse_schedule_time strptime now (ds @ ''m'')
           = Inr (Some (now + int (digits_val ds) * us_per_minute))"
    and "parse_schedule_time strptime now (ds @ ''h'')
           = Inr (Some (now + int (digits_val ds) * us_per_hour))"
proof -
  have le: "int (digits_val ds) * us_per_minute \<le> int (digits_val ds) * us_per_hour"
    by (simp add: us_per_minute_def us_per_hour_def)
  show "parse_schedule_time strptime now (ds @ ''m'')
           = Inr (Some (now + int (digits_val ds) * us_per_minute))"
    using assms le relative_match_digits[OF assms(1,2), of "CHR ''m''" "[]"]
    by (simp add: parse_schedule_time_def dt_add_def us_per_minute_def)
  show "parse_schedule_time strptime now (ds @ ''h'')
           = Inr (Some (now + int (digits_val ds) * us_per_hour))"
    using assms relative_match_digits[OF assms(1,2), of "CHR ''h''" "[]"]
    by (simp add: parse_schedule_time_def dt_add_def us_per_hour_def)
qed

lemma schedule_five_minutes:
  assumes "0 \<le> T" and "T + 5 * us_per_hour \<le> datetime_max"
  shows "parse_schedule_time strptime T ''5m'' = Inr (Some (T + 300 * 1000000))"
proof -
  have d: "digits_val ''5'' = 5" by (simp add: str_defs)
  have "list_all is_digit ''5''" by (simp add: str_defs)
  from schedule_relative(1)[of "''5''" T strptime] this assms d
  show ?thesis by (simp add: us_per_minute_def)
qed

lemma schedule_clock_time:
  assumes "is_digit a" "is_digit b" "is_digit d" "is_digit e"
    and "digits_val [a, b] \<le> 23" and "digits_val [d, e] \<le> 59"
  shows "parse_schedule_time strptime now [a, b, CHR '':'', d, e] =
           (let today_at = now div us_per_day * us_per_day + int (digits_val [a, b]) * us_per_hour
                             + int (digits_val [d, e]) * us_per_minute
            in if today_at < now then map_sum id Some (dt_add today_at us_per_day)
               else Inr (Some today_at))"
proof -
  have r: "relative_match [a, b, CHR '':'', d, e] = None"
    using assms(1,2) not_digit_unit(3) by (simp add: relative_match_def)
  have t: "time_only_match [a, b, CHR '':'', d, e] = Some ([a, b], [d, e])"
    using assms by simp
  show ?thesis
    unfolding parse_schedule_time_def r t
    using assms(5,6) by (simp add: dt_replace_def Let_def)
qed

text \<open>
  The check after parsing: a time before now is refused, a time at or after now is
  scheduled; a text that none of the three forms reads is refused as an invalid format.
\<close>

lemma schedule_future_check:
  assumes "py_split_max 2 (ev_text ev) = [c, msg_id, time_str]"
    and "map_of (stored_messages s) msg_id \<noteq> None"
    and "parse_schedule_time strptime now time_str = Inr (Some t)"
  shows "t < now \<Longrightarrow> cmd_schedule strptime draws now s ev = Some (s, [Must_be_in_future])"
    and "now \<le> t \<Longrightarrow> generate_campaign_id draws s = Some i \<Longrightarrow>
           \<exists>s'. cmd_schedule strptime draws now s ev
                  = Some (s', [Scheduled (''sched_'' @ i) msg_id t])"
  using assms by (auto simp add: cmd_schedule_def Let_def create_task_def)

lemma schedule_unparsable:
  assumes "py_split_max 2 (ev_text ev) = [c, msg_id, time_str]"
    and "map_of (stored_messages s) msg_id \<noteq> None"
    and "relative_match time_str = None" and "time_only_match time_str = None"
    and "strptime time_str = None"
  shows "cmd_schedule strptime draws now s ev = Some (s, [Invalid_time_format time_str])"
  using assms by (auto simp add: cmd_schedule_def Let_def parse_schedule_time_def)

text \<open>
  C7 asks that a fire time which is not strictly in the future be refused. The command
  tests \<open>schedule_time < now\<close> only: at noon, \<open>/schedule 1 0m\<close> resolves to noon itself
  and is accepted, a task is created and registered, and the reply announces the
  schedule.
\<close>

theorem schedule_now_accepted:
  "cmd_schedule no_strptime [] noon (saved [100]) (command 1 ''/schedule 1 0m'')
   = Some ((saved [100])\<lparr>scheduled_tasks := [(''sched_2'', 0)],
                          tasks := [\<lparr>coro = ScheduleForward ''1'' 0 noon, status = Running\<rparr>]\<rparr>,
           [Scheduled ''sched_2'' ''1'' noon])"
  by code_simp

end
